theory Spec2Isabelle
  imports Main "HOL-Library.Word"
begin

section \<open>The tvmaze client: data model\<close>

text \<open>
  A shallow embedding of \<^verbatim>\<open>tvmaze.go\<close>. Go strings and byte slices are byte sequences,
  modelled as \<open>string\<close> (a list of 8-bit characters). \<^verbatim>\<open>int64\<close> and \<^verbatim>\<open>int\<close> (on a
  64-bit platform) are \<open>64 word\<close>; a \<^verbatim>\<open>float64\<close> is carried as its 64-bit pattern, since the
  client never computes with one.
\<close>

type_synonym int64 = "64 word"
type_synonym go_int = "64 word"
type_synonym float64 = "64 word"

record Country =
  Country_Name :: string
  Country_Code :: string
  Country_TimeZone :: string

record Network =
  Network_ID :: go_int
  Network_Name :: string
  Network_Country :: Country

record Rating =
  Rating_Average :: float64

record Schedule =
  Schedule_Time :: string
  Schedule_Days :: "string list"

record External =
  External_TVRage :: int64
  External_TheTVDB :: int64

record Image =
  Image_Medium :: string
  Image_Original :: string

record Link =
  Link_Href :: string

record Links =
  Links_Self :: Link
  Links_PreviousEpisode :: Link

record Show =
  Show_ID :: int64
  Show_URL :: string
  Show_Name :: string
  Show_Type :: string
  Show_Language :: string
  Show_Genres :: "string list"
  Show_Status :: string
  Show_Runtime :: go_int
  Show_Premiered :: string
  Show_Schedule :: Schedule
  Show_Rating :: Rating
  Show_Weight :: go_int
  Show_Network :: Network
  Show_Externals :: External
  Show_Image :: Image
  Show_Summary :: string
  Show_Updated :: int64
  Show_Links :: Links

record Candidate =
  Candidate_Score :: float64
  Candidate_Show :: Show

record Episode =
  Episode_ID :: int64
  Episode_URL :: string
  Episode_Name :: string
  Episode_Season :: go_int
  Episode_Number :: go_int
  Episode_AirDate :: string
  Episode_AirTime :: string
  Episode_AirStamp :: string
  Episode_Runtime :: go_int
  Episode_Summary :: string
  Episode_Links :: Links

text \<open>The zero values of the structs, as Go's \<^verbatim>\<open>Show{}\<close> builds them.\<close>

definition zero_Country :: Country where
  "zero_Country = \<lparr>Country_Name = '''', Country_Code = '''', Country_TimeZone = ''''\<rparr>"

definition zero_Network :: Network where
  "zero_Network = \<lparr>Network_ID = 0, Network_Name = '''', Network_Country = zero_Country\<rparr>"

definition zero_Links :: Links where
  "zero_Links = \<lparr>Links_Self = \<lparr>Link_Href = ''''\<rparr>, Links_PreviousEpisode = \<lparr>Link_Href = ''''\<rparr>\<rparr>"

definition zero_Show :: Show where
  "zero_Show =
     \<lparr>Show_ID = 0, Show_URL = '''', Show_Name = '''', Show_Type = '''', Show_Language = '''',
      Show_Genres = [], Show_Status = '''', Show_Runtime = 0, Show_Premiered = '''',
      Show_Schedule = \<lparr>Schedule_Time = '''', Schedule_Days = []\<rparr>,
      Show_Rating = \<lparr>Rating_Average = 0\<rparr>, Show_Weight = 0, Show_Network = zero_Network,
      Show_Externals = \<lparr>External_TVRage = 0, External_TheTVDB = 0\<rparr>,
      Show_Image = \<lparr>Image_Medium = '''', Image_Original = ''''\<rparr>,
      Show_Summary = '''', Show_Updated = 0, Show_Links = zero_Links\<rparr>"

definition zero_Episode :: Episode where
  "zero_Episode =
     \<lparr>Episode_ID = 0, Episode_URL = '''', Episode_Name = '''', Episode_Season = 0,
      Episode_Number = 0, Episode_AirDate = '''', Episode_AirTime = '''', Episode_AirStamp = '''',
      Episode_Runtime = 0, Episode_Summary = '''', Episode_Links = zero_Links\<rparr>"

subsection \<open>Errors and abnormal termination\<close>

text \<open>
  A Go \<^verbatim>\<open>error\<close> is a value. \<open>errors_New\<close> is an error built by this package with
  \<^verbatim>\<open>errors.New\<close>; the other constructors tag the library call that returned the error and
  carry its message. \<open>Panic\<close> is a failed type assertion, \<open>Fatal\<close> the process exit of
  \<^verbatim>\<open>log.Fatal\<close>: neither is returned to the caller, both end the call.
\<close>

datatype error =
    errors_New string
  | ParseError string
  | TransportError string
  | ReadError string
  | UnmarshalError string
  | LoadError string
  | Panic string
  | Fatal string

subsection \<open>The libraries and the world outside the package\<close>

text \<open>
  \<^verbatim>\<open>url.URL\<close> with the fields a request URI uses. \<^verbatim>\<open>url.Parse\<close> and
  \<^verbatim>\<open>(*URL).String\<close> are library code: they are parameters of the model.
\<close>

record URL =
  Scheme :: string
  Host :: string
  Path :: string
  RawQuery :: string
  Fragment :: string

record Request =
  Method :: string
  Request_URL :: URL
  Header :: "(string \<times> string) list"

text \<open>
  An HTTP response: the status code, and what \<^verbatim>\<open>ioutil.ReadAll(resp.Body)\<close> yields, the
  whole body or a read error.
\<close>

record Response =
  StatusCode :: int
  Body :: "string + string"

text \<open>
  The value an \<^verbatim>\<open>interface{}\<close> holds: nil, a byte slice, or a value of some other dynamic
  type (named by a description).
\<close>

datatype iface = Nil | ByteSlice string | OtherValue string

text \<open>
  Modelled from the spec: the cache library (package go-cache) is a dependency whose source
  is not part of the repository. A cache entry holds the stored value, the time it was
  stored and its time to live; the store maps keys to entries and has a default time to
  live and a sweep interval (durations and times in nanoseconds).
\<close>

record CacheEntry =
  entry_value :: iface
  storedAt :: nat
  ttl :: nat

record Cache =
  items :: "string \<rightharpoonup> CacheEntry"
  defaultExpiration :: nat
  cleanupInterval :: nat

text \<open>
  The library functions and the outside world the package calls into, as parameters:
  lower-casing (Unicode tables), URL parsing and printing, the HTTP round trip (at a clock
  reading, a request takes some time and yields a transport error or a response), the
  table of status texts, the JSON decoders for the two shapes, and the decoder of a cache
  file.
\<close>

record Env =
  ToLower :: "string \<Rightarrow> string"
  url_Parse :: "string \<Rightarrow> string + URL"
  URL_String :: "URL \<Rightarrow> string"
  RoundTrip :: "nat \<Rightarrow> Request \<Rightarrow> nat \<times> (string + Response)"
  StatusText :: "int \<Rightarrow> string"
  Unmarshal_Candidates :: "string \<Rightarrow> string + Candidate list"
  Unmarshal_Episodes :: "string \<Rightarrow> string + Episode list"
  gob_Decode :: "string \<Rightarrow> string + (string \<rightharpoonup> CacheEntry)"

text \<open>
  The state outside the client: the clock, the files on disk, the requests handed to the
  HTTP transport so far (oldest first), the URIs \<open>Go\<close> was called with so far (a ghost
  log), and the lines written to standard error and standard output.
\<close>

record World =
  clock :: nat
  files :: "string \<rightharpoonup> string"
  sent :: "Request list"
  Go_calls :: "string list"
  stderr :: "string list"
  stdout :: "string list"

record Client =
  Debug :: bool
  BaseURI :: string
  Region :: string
  Cache :: Cache
  CacheFile :: string
  UseCache :: bool
  Timeout :: nat

section \<open>FindShow: the matching loops\<close>

text \<open>\<^verbatim>\<open>strings.HasPrefix(s, prefix)\<close>: a comparison of bytes.\<close>

definition HasPrefix :: "string \<Rightarrow> string \<Rightarrow> bool" where
  "HasPrefix s pre = (length pre \<le> length s \<and> take (length pre) s = pre)"

text \<open>
  The inner loop of \<^verbatim>\<open>FindShow\<close> (lines 72 to 85) for one value of \<open>retry\<close>: the first
  candidate, in the order of the list, that one of the \<^verbatim>\<open>return\<close> statements accepts.
\<close>

fun scan_candidates :: "Env \<Rightarrow> string \<Rightarrow> string \<Rightarrow> int \<Rightarrow> Candidate list \<Rightarrow> Show option" where
  "scan_candidates env region showname retry [] = None"
| "scan_candidates env region showname retry (cand # rest) =
     (let shw = Candidate_Show cand in
      if region \<noteq> '''' \<and> retry < 1 then
        (if region = Country_Code (Network_Country (Show_Network shw))
            \<and> HasPrefix (Show_Name shw) showname
         then Some shw
         else scan_candidates env region showname retry rest)
      else
        (if ToLower env (Show_Name shw) = ToLower env showname then Some shw
         else if retry > 0 \<and> HasPrefix (Show_Name shw) showname then Some shw
         else scan_candidates env region showname retry rest))"

text \<open>
  The outer loop (lines 71 to 88): \<open>retry\<close> runs from 0 to 1, and the function fails with
  the error of line 88 when both scans accept nothing.
\<close>

function retry_loop :: "Env \<Rightarrow> string \<Rightarrow> string \<Rightarrow> Candidate list \<Rightarrow> int \<Rightarrow> error + Show" where
  "retry_loop env region showname candidates retry =
     (if retry \<le> 1 then
        (case scan_candidates env region showname retry candidates of
           Some shw \<Rightarrow> Inr shw
         | None \<Rightarrow> retry_loop env region showname candidates (retry + 1))
      else Inl (errors_New ''Failed to match show in tvmaze!''))"
  by pat_completeness auto
termination
  by (relation "measure (\<lambda>(env, region, showname, candidates, retry). nat (2 - retry))") auto

declare retry_loop.simps [simp del]

text \<open>
  \<^verbatim>\<open>url.QueryEscape\<close>: letters, digits and \<^verbatim>\<open>-_.~\<close> stay, a space becomes \<^verbatim>\<open>+\<close>, every
  other byte becomes \<^verbatim>\<open>%XX\<close> in upper-case hexadecimal.
\<close>

definition upperhex :: string where
  "upperhex = ''0123456789ABCDEF''"

definition shouldEscape :: "char \<Rightarrow> bool" where
  "shouldEscape c =
     (let n = (of_char c :: nat) in
      \<not> ((97 \<le> n \<and> n \<le> 122) \<or> (65 \<le> n \<and> n \<le> 90) \<or> (48 \<le> n \<and> n \<le> 57)
         \<or> c \<in> set ''-_.~''))"

fun QueryEscape :: "string \<Rightarrow> string" where
  "QueryEscape [] = []"
| "QueryEscape (c # s) =
     (if c = CHR '' '' then CHR ''+'' # QueryEscape s
      else if shouldEscape c
        then CHR ''%'' # upperhex ! ((of_char c :: nat) div 16)
               # upperhex ! ((of_char c :: nat) mod 16) # QueryEscape s
      else c # QueryEscape s)"

text \<open>The verb \<^verbatim>\<open>%d\<close> of \<^verbatim>\<open>fmt.Sprintf\<close> on an \<^verbatim>\<open>int64\<close>: signed decimal.\<close>

function decimal :: "nat \<Rightarrow> string" where
  "decimal n =
     (if n < 10 then [''0123456789'' ! n]
      else decimal (n div 10) @ [''0123456789'' ! (n mod 10)])"
  by pat_completeness auto
termination
  by (relation "measure id") auto

declare decimal.simps [simp del]

definition format_int64 :: "int64 \<Rightarrow> string" where
  "format_int64 i =
     (if sint i < 0 then ''-'' @ decimal (nat (- sint i)) else decimal (nat (sint i)))"

section \<open>The cache store\<close>

text \<open>
  Modelled from the spec: \<^verbatim>\<open>cache.New\<close> of the go-cache dependency builds an empty store
  with the given default time to live and sweep interval.
\<close>

definition cache_New :: "nat \<Rightarrow> nat \<Rightarrow> Cache" where
  "cache_New d ci = \<lparr>items = Map.empty, defaultExpiration = d, cleanupInterval = ci\<rparr>"

text \<open>
  Modelled from the spec: \<^verbatim>\<open>Get\<close> of the go-cache dependency. Found is false when the
  key was never set or its entry has expired (\<open>now > storedAt + ttl\<close>); an expired entry is
  treated as absent and is not purged by the lookup.
\<close>

definition cache_Get :: "Cache \<Rightarrow> nat \<Rightarrow> string \<Rightarrow> iface \<times> bool" where
  "cache_Get c now k =
     (case items c k of
        None \<Rightarrow> (Nil, False)
      | Some e \<Rightarrow> if now > storedAt e + ttl e then (Nil, False) else (entry_value e, True))"

text \<open>
  Modelled from the spec: \<^verbatim>\<open>Set\<close> of the go-cache dependency inserts or overwrites the
  entry of the key and starts a fresh expiry window; a time to live of 0 means the
  default of the store.
\<close>

definition cache_Set :: "Cache \<Rightarrow> nat \<Rightarrow> string \<Rightarrow> iface \<Rightarrow> nat \<Rightarrow> Cache" where
  "cache_Set c now k x d =
     c\<lparr>items := (items c)(k \<mapsto>
          \<lparr>entry_value = x, storedAt = now,
           ttl = (if d = 0 then defaultExpiration c else d)\<rparr>)\<rparr>"

text \<open>
  Modelled from the spec: \<^verbatim>\<open>LoadFile\<close> of the go-cache dependency replaces the snapshot
  in memory with the decoded contents of the file, and fails when the file cannot be
  opened or its contents do not decode.
\<close>

definition cache_LoadFile :: "Env \<Rightarrow> World \<Rightarrow> Cache \<Rightarrow> string \<Rightarrow> error + Cache" where
  "cache_LoadFile env w c fname =
     (case files w fname of
        None \<Rightarrow> Inl (LoadError ''open: no such file or directory'')
      | Some content \<Rightarrow>
          (case gob_Decode env content of
             Inl err \<Rightarrow> Inl (LoadError err)
           | Inr m \<Rightarrow> Inr (c\<lparr>items := m\<rparr>)))"

text \<open>\<^verbatim>\<open>os.Stat\<close>: the error it returns, none when the file exists.\<close>

definition os_Stat :: "World \<Rightarrow> string \<Rightarrow> string option" where
  "os_Stat w name =
     (case files w name of
        None \<Rightarrow> Some ''stat: no such file or directory''
      | Some content \<Rightarrow> None)"

section \<open>The client\<close>

text \<open>Durations in nanoseconds, as \<^verbatim>\<open>time.Duration\<close> counts them.\<close>

definition Second :: nat where
  "Second = 1000000000"

definition Minute :: nat where
  "Minute = 60 * Second"

text \<open>
  \<^verbatim>\<open>NewClient\<close> (lines 31 to 51): a store with a time to live of one week; the cache file is
  loaded only when \<^verbatim>\<open>os.Stat\<close> reports no error, and a failed load is returned.
\<close>

definition NewClient :: "Env \<Rightarrow> World \<Rightarrow> string \<Rightarrow> error + Client" where
  "NewClient env w cachefile =
     (let c = cache_New (Minute * 60 * 24 * 7) (Minute * 60);
          loaded = (if os_Stat w cachefile = None then cache_LoadFile env w c cachefile
                    else Inr c)
      in case loaded of
           Inl err \<Rightarrow> Inl err
         | Inr c' \<Rightarrow>
             Inr \<lparr>Debug = False, BaseURI = ''http://api.tvmaze.com'', Region = '''',
                  Cache = c', CacheFile = cachefile, UseCache = False,
                  Timeout = 180 * Second\<rparr>)"

text \<open>
  \<^verbatim>\<open>http.NewRequest(method, url, nil)\<close>: the URL string is parsed, and the request has the
  method, the parsed URL and an empty header set.
\<close>

definition http_NewRequest :: "Env \<Rightarrow> string \<Rightarrow> string \<Rightarrow> error + Request" where
  "http_NewRequest env method urlStr =
     (case url_Parse env urlStr of
        Inl err \<Rightarrow> Inl (ParseError err)
      | Inr u \<Rightarrow> Inr \<lparr>Method = method, Request_URL = u, Header = []\<rparr>)"

text \<open>The type assertion \<^verbatim>\<open>data.([]byte)\<close> of line 173: it panics on any other value.\<close>

definition assert_bytes :: "iface \<Rightarrow> error + string" where
  "assert_bytes data =
     (case data of
        ByteSlice b \<Rightarrow> Inr b
      | Nil \<Rightarrow> Inl (Panic ''interface conversion: interface is nil, not []uint8'')
      | OtherValue t \<Rightarrow> Inl (Panic ''interface conversion: interface is not []uint8''))"

text \<open>
  \<^verbatim>\<open>Go\<close> (lines 141 to 174). The result, the client (its cache may have been written) and
  the world after the call. \<^verbatim>\<open>c.Do(request)\<close> hands the request to the transport, which
  takes some time.
\<close>

definition Go :: "Env \<Rightarrow> Client \<Rightarrow> World \<Rightarrow> URL \<Rightarrow> (error + string) \<times> Client \<times> World" where
  "Go env c w uri =
     (let key = URL_String env uri;
          w0 = w\<lparr>Go_calls := Go_calls w @ [key]\<rparr>;
          (data, found) = cache_Get (Cache c) (clock w0) key
      in
      if \<not> found \<or> \<not> UseCache c then
        (let w1 = (if Debug c
                   then w0\<lparr>stderr := stderr w0 @ [''cache miss: '' @ key @ [CHR 0x0A]]\<rparr>
                   else w0)
         in case http_NewRequest env ''GET'' key of
              Inl err \<Rightarrow> (Inl err, c, w1)
            | Inr request \<Rightarrow>
                (let (elapsed, r) = RoundTrip env (clock w1) request;
                     w2 = w1\<lparr>clock := clock w1 + elapsed, sent := sent w1 @ [request]\<rparr>
                 in case r of
                      Inl err \<Rightarrow> (Inl (TransportError err), c, w2)
                    | Inr resp \<Rightarrow>
                        if StatusCode resp \<noteq> 200 then
                          (Inl (errors_New (''Request failed: ''
                                  @ StatusText env (StatusCode resp))), c, w2)
                        else
                          (case Body resp of
                             Inl err \<Rightarrow> (Inl (ReadError err), c, w2)
                           | Inr body \<Rightarrow>
                               (assert_bytes (ByteSlice body),
                                c\<lparr>Cache := cache_Set (Cache c) (clock w2) key
                                              (ByteSlice body) 0\<rparr>,
                                w2))))
      else
        (let w1 = (if Debug c
                   then w0\<lparr>stdout := stdout w0 @ [''cache hit: '' @ key @ [CHR 0x0A]]\<rparr>
                   else w0)
         in (assert_bytes data, c, w1)))"

text \<open>
  \<^verbatim>\<open>GetShow\<close> (lines 92 to 115). A base URI that does not parse ends the process
  (\<^verbatim>\<open>log.Fatal\<close>). The query is \<^verbatim>\<open>url.Values{"q": {show}}.Encode()\<close>.
\<close>

definition GetShow ::
  "Env \<Rightarrow> Client \<Rightarrow> World \<Rightarrow> string \<Rightarrow> (error + Candidate list) \<times> Client \<times> World" where
  "GetShow env c w shw =
     (let route = ''/search/shows'' in
      case url_Parse env (BaseURI c @ route) of
        Inl err \<Rightarrow> (Inl (Fatal err), c, w\<lparr>stderr := stderr w @ [err]\<rparr>)
      | Inr uri0 \<Rightarrow>
          (let query = ''q='' @ QueryEscape shw;
               uri = uri0\<lparr>RawQuery := query\<rparr>
           in case Go env c w uri of
                (Inl err, c', w') \<Rightarrow> (Inl err, c', w')
              | (Inr jsondata, c', w') \<Rightarrow>
                  (case Unmarshal_Candidates env jsondata of
                     Inl err \<Rightarrow> (Inl (UnmarshalError err), c', w')
                   | Inr candidates \<Rightarrow> (Inr candidates, c', w'))))"

text \<open>\<^verbatim>\<open>GetEpisodes\<close> (lines 118 to 137).\<close>

definition GetEpisodes ::
  "Env \<Rightarrow> Client \<Rightarrow> World \<Rightarrow> int64 \<Rightarrow> (error + Episode list) \<times> Client \<times> World" where
  "GetEpisodes env c w showID =
     (let route = ''/shows/'' @ format_int64 showID @ ''/episodes'' in
      case url_Parse env (BaseURI c @ route) of
        Inl err \<Rightarrow> (Inl (ParseError err), c, w)
      | Inr uri \<Rightarrow>
          (case Go env c w uri of
             (Inl err, c', w') \<Rightarrow> (Inl err, c', w')
           | (Inr jsondata, c', w') \<Rightarrow>
               (case Unmarshal_Episodes env jsondata of
                  Inl err \<Rightarrow> (Inl (UnmarshalError err), c', w')
                | Inr episodes \<Rightarrow> (Inr episodes, c', w'))))"

text \<open>
  \<^verbatim>\<open>FindShow\<close> (lines 63 to 89): the candidates of \<^verbatim>\<open>GetShow\<close>, then the two scans with
  the region of the client.
\<close>

definition FindShow ::
  "Env \<Rightarrow> Client \<Rightarrow> World \<Rightarrow> string \<Rightarrow> (error + Show) \<times> Client \<times> World" where
  "FindShow env c w showname =
     (case GetShow env c w showname of
        (Inl err, c', w') \<Rightarrow> (Inl err, c', w')
      | (Inr candidates, c', w') \<Rightarrow>
          (retry_loop env (Region c') showname candidates 0, c', w'))"

section \<open>The vocabulary of the specification\<close>

text \<open>
  Pass 1 of the specification accepts a show whose network country code is the region and
  whose name starts with the query.
\<close>

definition pass1_accepts :: "string \<Rightarrow> string \<Rightarrow> Show \<Rightarrow> bool" where
  "pass1_accepts region name shw =
     (region = Country_Code (Network_Country (Show_Network shw))
      \<and> HasPrefix (Show_Name shw) name)"

text \<open>The two tests of pass 2: equality of the lower-cased names, and the prefix test.\<close>

definition equality_accepts :: "Env \<Rightarrow> string \<Rightarrow> Show \<Rightarrow> bool" where
  "equality_accepts env name shw = (ToLower env (Show_Name shw) = ToLower env name)"

definition prefix_accepts :: "string \<Rightarrow> Show \<Rightarrow> bool" where
  "prefix_accepts name shw = HasPrefix (Show_Name shw) name"

definition either_accepts :: "Env \<Rightarrow> string \<Rightarrow> Show \<Rightarrow> bool" where
  "either_accepts env name shw = (equality_accepts env name shw \<or> prefix_accepts name shw)"

text \<open>A show is accepted by one of the two passes (pass 1 exists only with a region).\<close>

definition accepted :: "Env \<Rightarrow> string \<Rightarrow> string \<Rightarrow> Show \<Rightarrow> bool" where
  "accepted env region name shw =
     ((region \<noteq> '''' \<and> pass1_accepts region name shw) \<or> either_accepts env name shw)"

text \<open>
  Pass 2 in the words of the specification: a scan for an equality match, and only when
  no show matches by equality a second scan for a prefix match.
\<close>

definition pass2_spec :: "Env \<Rightarrow> string \<Rightarrow> Show list \<Rightarrow> Show option" where
  "pass2_spec env name shws =
     (case find (equality_accepts env name) shws of
        Some shw \<Rightarrow> Some shw
      | None \<Rightarrow> find (prefix_accepts name) shws)"

text \<open>The error of line 88, and the result of a resolution that accepted a show or none.\<close>

definition not_found :: error where
  "not_found = errors_New ''Failed to match show in tvmaze!''"

definition resolved :: "Show option \<Rightarrow> error + Show" where
  "resolved r = (case r of Some shw \<Rightarrow> Inr shw | None \<Rightarrow> Inl not_found)"

text \<open>A store all of whose entries hold byte slices.\<close>

definition is_bytes :: "iface \<Rightarrow> bool" where
  "is_bytes v = (case v of ByteSlice b \<Rightarrow> True | _ \<Rightarrow> False)"

definition bytes_only :: "Cache \<Rightarrow> bool" where
  "bytes_only ca = (\<forall>e \<in> ran (items ca). is_bytes (entry_value e))"

text \<open>
  The clients of an execution in which only \<open>Go\<close> writes the cache: the cache starts
  empty, \<open>Go\<close> is called with any URI in any state of the world, and the caller may set
  the configuration fields between calls.
\<close>

inductive written_by_fetch :: "Env \<Rightarrow> Client \<Rightarrow> bool" for env :: Env where
  fresh: "items (Cache c) = Map.empty \<Longrightarrow> written_by_fetch env c"
| fetch: "written_by_fetch env c \<Longrightarrow> Go env c w uri = (r, c', w') \<Longrightarrow> written_by_fetch env c'"
| configure:
    "written_by_fetch env c \<Longrightarrow>
     written_by_fetch env (c\<lparr>Debug := d, BaseURI := b, Region := g, UseCache := u\<rparr>)"

section \<open>A concrete environment\<close>

text \<open>
  One instance of the parameters, on which the functions are evaluated in the examples:
  lower-casing of ASCII letters, a parser and printer for plain \<^verbatim>\<open>http\<close> URLs (a space
  in the host does not parse), and a service that answers a few searches and episode
  listings, fails to read the body of one, and answers 404 otherwise. Response bodies are
  opaque tokens that the decoders of the environment map to records.
\<close>

definition ascii_lower :: "char \<Rightarrow> char" where
  "ascii_lower c =
     (case map_of (zip ''ABCDEFGHIJKLMNOPQRSTUVWXYZ'' ''abcdefghijklmnopqrstuvwxyz'') c of
        Some l \<Rightarrow> l
      | None \<Rightarrow> c)"

definition parse0 :: "string \<Rightarrow> string + URL" where
  "parse0 s =
     (if take 7 s = ''http://'' then
        (let rest = drop 7 s;
             host = takeWhile (\<lambda>c. c \<noteq> CHR ''/'' \<and> c \<noteq> CHR ''?'') rest;
             tail = dropWhile (\<lambda>c. c \<noteq> CHR ''/'' \<and> c \<noteq> CHR ''?'') rest;
             path = takeWhile (\<lambda>c. c \<noteq> CHR ''?'') tail;
             query = drop 1 (dropWhile (\<lambda>c. c \<noteq> CHR ''?'') tail)
         in if CHR '' '' \<in> set host then Inl ''invalid character in host name''
            else Inr \<lparr>Scheme = ''http'', Host = host, Path = path, RawQuery = query,
                      Fragment = ''''\<rparr>)
      else Inl ''unsupported protocol scheme'')"

definition print0 :: "URL \<Rightarrow> string" where
  "print0 u =
     Scheme u @ ''://'' @ Host u @ Path u
       @ (if RawQuery u = '''' then '''' else CHR ''?'' # RawQuery u)"

definition show_of :: "int64 \<Rightarrow> string \<Rightarrow> string \<Rightarrow> Show" where
  "show_of i name code =
     zero_Show\<lparr>Show_ID := i, Show_Name := name,
       Show_Network :=
         zero_Network\<lparr>Network_Country := zero_Country\<lparr>Country_Code := code\<rparr>\<rparr>\<rparr>"

definition candidate_of :: "Show \<Rightarrow> Candidate" where
  "candidate_of shw = \<lparr>Candidate_Score = 0, Candidate_Show = shw\<rparr>"

definition archer_candidates :: "Candidate list" where
  "archer_candidates =
     [candidate_of (show_of 1 ''Archer (2009)'' ''US''),
      candidate_of (show_of 2 ''Archer'' ''US'')]"

definition lost_girl_candidates :: "Candidate list" where
  "lost_girl_candidates =
     [candidate_of (show_of 3 ''Lost Girl'' ''CA''),
      candidate_of (show_of 4 ''Lost Girl'' ''US'')]"

definition lost_candidates :: "Candidate list" where
  "lost_candidates =
     [candidate_of (show_of 6 ''Lost'' ''US''), candidate_of (show_of 3 ''Lost Girl'' ''CA'')]"

definition fringe_candidates :: "Candidate list" where
  "fringe_candidates = [candidate_of (show_of 5 ''Fringe'' ''US'')]"

text \<open>Two episodes that the service lists out of their numeric order.\<close>

definition episodes0 :: "Episode list" where
  "episodes0 =
     [zero_Episode\<lparr>Episode_ID := 12, Episode_Name := ''Pilot'', Episode_Season := 1,
        Episode_Number := 2\<rparr>,
      zero_Episode\<lparr>Episode_ID := 11, Episode_Name := ''Special'', Episode_Season := 1,
        Episode_Number := 1\<rparr>]"

definition server0 :: "nat \<Rightarrow> Request \<Rightarrow> nat \<times> (string + Response)" where
  "server0 t req =
     (let u = Request_URL req in
      if Host u \<noteq> ''api.tvmaze.com'' then (3 * Second, Inl ''dial tcp: no such host'')
      else if Path u = ''/search/shows'' \<and> RawQuery u = ''q=Archer''
        then (Second, Inr \<lparr>StatusCode = 200, Body = Inr ''<json: archer>''\<rparr>)
      else if Path u = ''/search/shows'' \<and> RawQuery u = ''q=Lost+Girl''
        then (Second, Inr \<lparr>StatusCode = 200, Body = Inr ''<json: lost girl>''\<rparr>)
      else if Path u = ''/search/shows'' \<and> RawQuery u = ''q=Lost''
        then (Second, Inr \<lparr>StatusCode = 200, Body = Inr ''<json: lost>''\<rparr>)
      else if Path u = ''/search/shows'' \<and> RawQuery u = ''q=NoSuchShow''
        then (Second, Inr \<lparr>StatusCode = 200, Body = Inr ''<json: fringe>''\<rparr>)
      else if Path u = ''/shows/1/episodes''
        then (Second, Inr \<lparr>StatusCode = 200, Body = Inr ''<json: episodes>''\<rparr>)
      else if Path u = ''/shows/2/episodes''
        then (Second, Inr \<lparr>StatusCode = 200, Body = Inr ''<html>''\<rparr>)
      else if Path u = ''/shows/3/episodes''
        then (Second, Inr \<lparr>StatusCode = 200, Body = Inl ''unexpected EOF''\<rparr>)
      else (Second, Inr \<lparr>StatusCode = 404, Body = Inr ''''\<rparr>))"

definition env0 :: Env where
  "env0 =
     \<lparr>ToLower = map ascii_lower,
      url_Parse = parse0,
      URL_String = print0,
      RoundTrip = server0,
      StatusText =
        (\<lambda>code. if code = 404 then ''Not Found'' else if code = 200 then ''OK'' else ''''),
      Unmarshal_Candidates =
        (\<lambda>b. if b = ''<json: archer>'' then Inr archer_candidates
              else if b = ''<json: lost girl>'' then Inr lost_girl_candidates
              else if b = ''<json: lost>'' then Inr lost_candidates
              else if b = ''<json: fringe>'' then Inr fringe_candidates
              else Inl ''invalid character looking for beginning of value''),
      Unmarshal_Episodes =
        (\<lambda>b. if b = ''<json: episodes>'' then Inr episodes0
              else Inl ''invalid character looking for beginning of value''),
      gob_Decode =
        (\<lambda>b. if b = '''' then Inr Map.empty
              else Inl ''gob: encoded unsigned integer out of range'')\<rparr>"

definition world0 :: World where
  "world0 =
     \<lparr>clock = 0, files = Map.empty, sent = [], Go_calls = [], stderr = [], stdout = []\<rparr>"

text \<open>A world whose cache file exists and does not decode.\<close>

definition world_malformed :: World where
  "world_malformed = world0\<lparr>files := [''tvmaze.cache'' \<mapsto> ''garbage'']\<rparr>"

text \<open>The client that \<open>NewClient\<close> builds when there is no cache file.\<close>

definition client0 :: Client where
  "client0 =
     \<lparr>Debug = False, BaseURI = ''http://api.tvmaze.com'', Region = '''',
      Cache = cache_New (Minute * 60 * 24 * 7) (Minute * 60), CacheFile = ''tvmaze.cache'',
      UseCache = False, Timeout = 180 * Second\<rparr>"

text \<open>The same client with one entry, stored at time 0 under the given key.\<close>

definition cached_client :: "string \<Rightarrow> Client" where
  "cached_client key =
     client0\<lparr>Cache := cache_Set (Cache client0) 0 key (ByteSlice ''<json: cached>'') 0\<rparr>"

definition episodes_uri :: "string \<Rightarrow> URL" where
  "episodes_uri n =
     \<lparr>Scheme = ''http'', Host = ''api.tvmaze.com'', Path = ''/shows/'' @ n @ ''/episodes'',
      RawQuery = '''', Fragment = ''''\<rparr>"

text \<open>A URI whose string form does not parse, and one whose host is not reachable.\<close>

definition bad_uri :: URL where
  "bad_uri =
     \<lparr>Scheme = ''http'', Host = ''a b'', Path = '''', RawQuery = '''', Fragment = ''''\<rparr>"

definition offline_uri :: URL where
  "offline_uri =
     \<lparr>Scheme = ''http'', Host = ''localhost'', Path = ''/'', RawQuery = '''', Fragment = ''''\<rparr>"

definition get_request :: "URL \<Rightarrow> Request" where
  "get_request u = \<lparr>Method = ''GET'', Request_URL = u, Header = []\<rparr>"

lemmas harness_defs = env0_def world0_def client0_def parse0_def print0_def server0_def
  Second_def Minute_def cache_New_def episodes_uri_def cached_client_def world_malformed_def
  bad_uri_def offline_uri_def get_request_def

lemmas code_defs = Go_def GetShow_def GetEpisodes_def http_NewRequest_def cache_Get_def
  cache_Set_def assert_bytes_def shouldEscape_def upperhex_def Let_def

lemmas data_defs = archer_candidates_def lost_girl_candidates_def lost_candidates_def
  fringe_candidates_def candidate_of_def show_of_def zero_Show_def zero_Network_def
  zero_Country_def zero_Links_def zero_Episode_def episodes0_def

lemmas match_defs = pass1_accepts_def equality_accepts_def prefix_accepts_def
  either_accepts_def pass2_spec_def resolved_def HasPrefix_def ascii_lower_def

section \<open>The matching loops as searches\<close>

text \<open>
  Each scan of \<^verbatim>\<open>FindShow\<close> is a search for the first show that passes a test: with a
  region the scan for \<open>retry = 0\<close> tests region and prefix, without one it tests
  equality; the scan for \<open>retry = 1\<close> tests equality or prefix on each candidate.
\<close>

lemma scan_region:
  "region \<noteq> '''' \<Longrightarrow>
   scan_candidates env region name 0 cs
     = find (pass1_accepts region name) (map Candidate_Show cs)"
  by (induction cs) (auto simp: pass1_accepts_def Let_def)

lemma scan_equality:
  "scan_candidates env '''' name 0 cs
     = find (equality_accepts env name) (map Candidate_Show cs)"
  by (induction cs) (auto simp: equality_accepts_def Let_def)

lemma scan_either:
  "scan_candidates env region name 1 cs
     = find (either_accepts env name) (map Candidate_Show cs)"
  by (induction cs)
    (auto simp: either_accepts_def equality_accepts_def prefix_accepts_def Let_def)

lemma retry_loop_unfold:
  "retry_loop env region name cs 0 =
     (case scan_candidates env region name 0 cs of
        Some shw \<Rightarrow> Inr shw
      | None \<Rightarrow>
          (case scan_candidates env region name 1 cs of
             Some shw \<Rightarrow> Inr shw
           | None \<Rightarrow> Inl (errors_New ''Failed to match show in tvmaze!'')))"
  by (simp add: retry_loop.simps [of _ _ _ _ 0] retry_loop.simps [of _ _ _ _ 1]
        retry_loop.simps [of _ _ _ _ 2] split: option.splits)

lemma find_either_no_equality:
  "find (equality_accepts env name) shws = None \<Longrightarrow>
   find (either_accepts env name) shws = find (prefix_accepts name) shws"
  by (induction shws) (auto simp: either_accepts_def split: if_splits)

lemma find_result_accepted: "find P xs = Some x \<Longrightarrow> x \<in> set xs \<and> P x"
  by (induction xs) (auto split: if_splits)

lemma find_None_set: "find P xs = None \<longleftrightarrow> (\<forall>x \<in> set xs. \<not> P x)"
  by (induction xs) auto

lemma retry_loop_region:
  "region \<noteq> '''' \<Longrightarrow>
   retry_loop env region name cs 0 =
     (case find (pass1_accepts region name) (map Candidate_Show cs) of
        Some shw \<Rightarrow> Inr shw
      | None \<Rightarrow> resolved (find (either_accepts env name) (map Candidate_Show cs)))"
  by (simp add: retry_loop_unfold scan_region scan_either resolved_def not_found_def
        split: option.splits)

lemma retry_loop_no_region:
  "retry_loop env '''' name cs 0 = resolved (pass2_spec env name (map Candidate_Show cs))"
  by (simp add: retry_loop_unfold scan_equality scan_either resolved_def not_found_def
        pass2_spec_def find_either_no_equality split: option.splits)

lemma accepted_either: "accepted env region name shw = either_accepts env name shw"
  by (auto simp: accepted_def pass1_accepts_def either_accepts_def prefix_accepts_def)

lemma scan_first_sound:
  "scan_candidates env region name 0 cs = Some shw \<Longrightarrow>
   shw \<in> set (map Candidate_Show cs) \<and> accepted env region name shw"
  by (induction cs)
    (auto simp: Let_def accepted_def pass1_accepts_def either_accepts_def equality_accepts_def
       split: if_splits)

lemma retry_loop_not_found_iff:
  "retry_loop env region name cs 0 = Inl not_found \<longleftrightarrow>
   (\<forall>shw \<in> set (map Candidate_Show cs). \<not> accepted env region name shw)"
proof
  assume "retry_loop env region name cs 0 = Inl not_found"
  then have "find (either_accepts env name) (map Candidate_Show cs) = None"
    by (simp add: retry_loop_unfold scan_either split: option.splits)
  then show "\<forall>shw \<in> set (map Candidate_Show cs). \<not> accepted env region name shw"
    by (simp add: find_None_set accepted_either)
next
  assume none: "\<forall>shw \<in> set (map Candidate_Show cs). \<not> accepted env region name shw"
  then have second: "scan_candidates env region name 1 cs = None"
    by (simp add: scan_either find_None_set accepted_either)
  have first: "scan_candidates env region name 0 cs = None"
  proof (cases "scan_candidates env region name 0 cs")
    case None
    then show ?thesis .
  next
    case (Some shw)
    from scan_first_sound [OF Some] none show ?thesis by blast
  qed
  from first second show "retry_loop env region name cs 0 = Inl not_found"
    by (simp add: retry_loop_unfold not_found_def)
qed

lemma retry_loop_found_accepted:
  assumes "retry_loop env region name cs 0 = Inr shw"
  shows "shw \<in> set (map Candidate_Show cs) \<and> accepted env region name shw"
proof (cases "scan_candidates env region name 0 cs")
  case (Some s)
  with assms have "s = shw" by (simp add: retry_loop_unfold)
  with scan_first_sound [OF Some] show ?thesis by simp
next
  case None
  with assms have "find (either_accepts env name) (map Candidate_Show cs) = Some shw"
    by (simp add: retry_loop_unfold scan_either split: option.splits)
  from find_result_accepted [OF this] show ?thesis by (simp add: accepted_either)
qed

lemma retry_loop_total:
  "retry_loop env region name cs 0 = Inl not_found
   \<or> (\<exists>shw. retry_loop env region name cs 0 = Inr shw)"
  by (simp add: retry_loop_unfold not_found_def split: option.splits)

section \<open>What a call changes\<close>

lemma Go_frame: "Go env c w uri = (r, c', w') \<Longrightarrow> c' = c\<lparr>Cache := Cache c'\<rparr>"
  by (auto simp: Go_def Let_def split: prod.splits sum.splits if_splits)

lemma GetShow_frame: "GetShow env c w name = (r, c', w') \<Longrightarrow> c' = c\<lparr>Cache := Cache c'\<rparr>"
  by (auto simp: GetShow_def Let_def split: prod.splits sum.splits if_splits dest: Go_frame)

lemma GetShow_Region: "GetShow env c w name = (r, c', w') \<Longrightarrow> Region c' = Region c"
  using GetShow_frame [of env c w name r c' w'] by (cases c, cases c') auto

lemma FindShow_candidates:
  "GetShow env c w name = (Inr cs, c', w') \<Longrightarrow>
   FindShow env c w name = (retry_loop env (Region c) name cs 0, c', w')"
  by (simp add: FindShow_def GetShow_Region)

lemma Go_error_unchanged: "Go env c w uri = (Inl e, c', w') \<Longrightarrow> c' = c"
  by (auto simp: Go_def Let_def assert_bytes_def split: prod.splits sum.splits if_splits)

lemma Go_written_success:
  "Go env c w uri = (r, c', w') \<Longrightarrow> Cache c' \<noteq> Cache c \<Longrightarrow> \<exists>body. r = Inr body"
  by (cases r) (auto dest: Go_error_unchanged)

lemma Go_cache_cases:
  "Go env c w uri = (r, c', w') \<Longrightarrow>
   Cache c' = Cache c \<or>
   (\<exists>body. r = Inr body \<and>
      Cache c' = cache_Set (Cache c) (clock w') (URL_String env uri) (ByteSlice body) 0)"
  by (auto simp: Go_def Let_def assert_bytes_def split: prod.splits sum.splits if_splits)

lemma Go_calls_log:
  "Go env c w uri = (r, c', w') \<Longrightarrow> Go_calls w' = Go_calls w @ [URL_String env uri]"
  by (auto simp: Go_def Let_def split: prod.splits sum.splits if_splits)

lemma Go_hit:
  "UseCache c \<Longrightarrow> cache_Get (Cache c) (clock w) (URL_String env uri) = (v, True) \<Longrightarrow>
   Go env c w uri = (r, c', w') \<Longrightarrow>
   r = assert_bytes v \<and> c' = c \<and> sent w' = sent w \<and> clock w' = clock w"
  by (auto simp: Go_def Let_def split: if_splits)

lemma Go_bypass:
  "\<not> UseCache c \<Longrightarrow> http_NewRequest env ''GET'' (URL_String env uri) = Inr req \<Longrightarrow>
   Go env c w uri = (r, c', w') \<Longrightarrow>
   sent w' = sent w @ [req] \<and>
   (\<forall>body. r = Inr body \<longrightarrow>
      (\<exists>el resp. RoundTrip env (clock w) req = (el, Inr resp) \<and> StatusCode resp = 200
         \<and> Body resp = Inr body) \<and>
      cache_Get (Cache c') (clock w') (URL_String env uri) = (ByteSlice body, True))"
  by (auto simp: Go_def Let_def assert_bytes_def cache_Get_def cache_Set_def
        split: prod.splits sum.splits if_splits)

lemma bytes_only_Set: "bytes_only ca \<Longrightarrow> bytes_only (cache_Set ca t k (ByteSlice b) d)"
  by (auto simp: bytes_only_def cache_Set_def is_bytes_def ran_def split: if_splits)

lemma Go_bytes_only:
  "Go env c w uri = (r, c', w') \<Longrightarrow> bytes_only (Cache c) \<Longrightarrow> bytes_only (Cache c')"
  using Go_cache_cases [of env c w uri r c' w'] by (auto simp: bytes_only_Set)

lemma written_bytes_only: "written_by_fetch env c \<Longrightarrow> bytes_only (Cache c)"
proof (induction rule: written_by_fetch.induct)
  case (fresh c)
  then show ?case by (simp add: bytes_only_def)
next
  case (fetch c w uri r c' w')
  then show ?case by (blast intro: Go_bytes_only)
next
  case (configure c d b g u)
  then show ?case by simp
qed

lemma Get_bytes_only:
  assumes "bytes_only ca" and "cache_Get ca t k = (v, True)"
  shows "\<exists>b. v = ByteSlice b"
proof -
  from assms(2) obtain e where e: "items ca k = Some e" and v: "v = entry_value e"
    by (auto simp: cache_Get_def split: option.splits if_splits)
  from e have "e \<in> ran (items ca)" by (rule ranI)
  with assms(1) have "is_bytes (entry_value e)" by (simp add: bytes_only_def)
  with v show ?thesis by (cases "entry_value e") (simp_all add: is_bytes_def)
qed

lemma Go_no_panic:
  "bytes_only (Cache c) \<Longrightarrow> fst (Go env c w uri) \<noteq> Inl (Panic msg)"
proof (cases "cache_Get (Cache c) (clock w) (URL_String env uri)")
  case (Pair v found)
  assume b: "bytes_only (Cache c)"
  show ?thesis
  proof (cases "found \<and> UseCache c")
    case True
    with Pair b obtain bs where "v = ByteSlice bs" by (auto dest: Get_bytes_only)
    with True Pair show ?thesis by (simp add: Go_def Let_def assert_bytes_def)
  next
    case False
    with Pair show ?thesis
      by (auto simp: Go_def Let_def assert_bytes_def http_NewRequest_def
            split: prod.splits sum.splits)
  qed
qed

section \<open>Evaluations in the concrete environment\<close>

lemma GetShow_archer:
  "fst (GetShow env0 (client0\<lparr>Region := g\<rparr>) world0 ''Archer'') = Inr archer_candidates"
  by (simp add: harness_defs code_defs)

lemma GetShow_lost_girl:
  "fst (GetShow env0 (client0\<lparr>Region := ''CA''\<rparr>) world0 ''Lost Girl'')
     = Inr lost_girl_candidates"
  by (simp add: harness_defs code_defs)

lemma GetShow_lost:
  "fst (GetShow env0 (client0\<lparr>Region := ''CA''\<rparr>) world0 ''Lost'') = Inr lost_candidates"
  by (simp add: harness_defs code_defs)

lemma GetShow_nosuch:
  "fst (GetShow env0 client0 world0 ''NoSuchShow'') = Inr fringe_candidates"
  by (simp add: harness_defs code_defs)

lemma Go_failures_eval:
  "fst (Go env0 (cached_client k) world0 bad_uri)
     = Inl (ParseError ''invalid character in host name'')"
  "fst (Go env0 (cached_client k) world0 offline_uri)
     = Inl (TransportError ''dial tcp: no such host'')"
  "fst (Go env0 (cached_client k) world0 (episodes_uri ''4''))
     = Inl (errors_New ''Request failed: Not Found'')"
  "fst (Go env0 (cached_client k) world0 (episodes_uri ''3''))
     = Inl (ReadError ''unexpected EOF'')"
  by (simp_all add: harness_defs code_defs)

section \<open>The claims about show resolution\<close>

text \<open>
  Claim C1, as amended. For the candidates that \<open>GetShow\<close> returned: when the region is
  unset, the candidates are first scanned in rank order for a case-insensitive equality
  match, and only if none matches by equality a second scan accepts the first candidate
  whose name has the query as a case-sensitive prefix, so a later exact match is preferred
  over an earlier prefix match. When a region is set and pass 1 accepts nothing, there is
  a single further scan in rank order, which accepts the first candidate whose name equals
  the query case-insensitively or has it as a case-sensitive prefix.
\<close>

theorem FindShow_pass2_scans:
  assumes "GetShow env c w name = (Inr cs, c', w')"
  shows "(Region c = '''' \<longrightarrow>
            FindShow env c w name
              = (resolved (pass2_spec env name (map Candidate_Show cs)), c', w'))
       \<and> (Region c \<noteq> ''''
            \<and> find (pass1_accepts (Region c) name) (map Candidate_Show cs) = None \<longrightarrow>
            FindShow env c w name
              = (resolved (find (either_accepts env name) (map Candidate_Show cs)), c', w'))"
  using assms by (auto simp: FindShow_candidates retry_loop_no_region retry_loop_region)

text \<open>
  The amended claim on the search for \<^verbatim>\<open>Archer\<close>, answered by \<^verbatim>\<open>Archer (2009)\<close> and then
  \<^verbatim>\<open>Archer\<close>: without a region the exact match wins, with the region \<^verbatim>\<open>CA\<close> (which
  neither candidate has) the earlier prefix match wins.
\<close>

theorem FindShow_pass2_scans_witness:
  "fst (FindShow env0 client0 world0 ''Archer'') = Inr (show_of 2 ''Archer'' ''US'')
   \<and> fst (FindShow env0 (client0\<lparr>Region := ''CA''\<rparr>) world0 ''Archer'')
       = Inr (show_of 1 ''Archer (2009)'' ''US'')"
proof -
  obtain c1 w1 where
    g1: "GetShow env0 client0 world0 ''Archer'' = (Inr archer_candidates, c1, w1)"
    using GetShow_archer [of "''''"]
    by (cases "GetShow env0 client0 world0 ''Archer''") (simp add: client0_def)
  obtain c2 w2 where
    g2: "GetShow env0 (client0\<lparr>Region := ''CA''\<rparr>) world0 ''Archer''
           = (Inr archer_candidates, c2, w2)"
    using GetShow_archer [of "''CA''"]
    by (cases "GetShow env0 (client0\<lparr>Region := ''CA''\<rparr>) world0 ''Archer''") simp
  have r1: "Region client0 = ''''" by (simp add: client0_def)
  have p1: "resolved (pass2_spec env0 ''Archer'' (map Candidate_Show archer_candidates))
              = Inr (show_of 2 ''Archer'' ''US'')"
    by (simp add: env0_def data_defs match_defs)
  have r2: "Region (client0\<lparr>Region := ''CA''\<rparr>) \<noteq> ''''
            \<and> find (pass1_accepts (Region (client0\<lparr>Region := ''CA''\<rparr>)) ''Archer'')
                 (map Candidate_Show archer_candidates) = None"
    by (simp add: data_defs match_defs)
  have p2: "resolved (find (either_accepts env0 ''Archer'')
                       (map Candidate_Show archer_candidates))
              = Inr (show_of 1 ''Archer (2009)'' ''US'')"
    by (simp add: env0_def data_defs match_defs)
  from FindShow_pass2_scans [OF g1] r1 p1
  have "fst (FindShow env0 client0 world0 ''Archer'') = Inr (show_of 2 ''Archer'' ''US'')"
    by simp
  moreover from FindShow_pass2_scans [OF g2] r2 p2
  have "fst (FindShow env0 (client0\<lparr>Region := ''CA''\<rparr>) world0 ''Archer'')
          = Inr (show_of 1 ''Archer (2009)'' ''US'')" by simp
  ultimately show ?thesis by simp
qed

text \<open>
  Claim C1 as stated fails with a region. Region \<^verbatim>\<open>CA\<close>, query \<^verbatim>\<open>Archer\<close>, candidates
  \<^verbatim>\<open>Archer (2009)\<close> and \<^verbatim>\<open>Archer\<close>, both of country \<^verbatim>\<open>US\<close>: pass 1 accepts nothing, the
  two scans of pass 2 as the claim describes them give the exact match \<^verbatim>\<open>Archer\<close>, and
  \<open>FindShow\<close> returns the earlier candidate \<^verbatim>\<open>Archer (2009)\<close>, which only has the query as
  a prefix.
\<close>

theorem FindShow_pass2_counterexample:
  "fst (GetShow env0 (client0\<lparr>Region := ''CA''\<rparr>) world0 ''Archer'') = Inr archer_candidates
   \<and> find (pass1_accepts ''CA'' ''Archer'') (map Candidate_Show archer_candidates) = None
   \<and> resolved (pass2_spec env0 ''Archer'' (map Candidate_Show archer_candidates))
       = Inr (show_of 2 ''Archer'' ''US'')
   \<and> fst (FindShow env0 (client0\<lparr>Region := ''CA''\<rparr>) world0 ''Archer'')
       = Inr (show_of 1 ''Archer (2009)'' ''US'')
   \<and> show_of 1 ''Archer (2009)'' ''US'' \<noteq> show_of 2 ''Archer'' ''US''"
  by (simp add: harness_defs code_defs FindShow_def retry_loop_unfold data_defs match_defs)

text \<open>
  Claim C2. With a region set, \<open>FindShow\<close> returns the first candidate, in rank order,
  whose network country code equals the region and whose name has the query as a
  case-sensitive prefix, whenever there is one: no candidate is considered under the
  rules of pass 2 before that scan has gone through the whole list.
\<close>

theorem FindShow_region_pass_first:
  assumes "GetShow env c w name = (Inr cs, c', w')"
    and "Region c \<noteq> ''''"
    and "find (pass1_accepts (Region c) name) (map Candidate_Show cs) = Some shw"
  shows "FindShow env c w name = (Inr shw, c', w')"
  using assms by (simp add: FindShow_candidates retry_loop_region)

text \<open>
  The example of the claim: region \<^verbatim>\<open>CA\<close>, query \<^verbatim>\<open>Lost Girl\<close>, candidates Lost Girl of
  \<^verbatim>\<open>CA\<close> and Lost Girl of \<^verbatim>\<open>US\<close>. And a search for \<^verbatim>\<open>Lost\<close> answered by \<^verbatim>\<open>Lost\<close> of
  \<^verbatim>\<open>US\<close> and then \<^verbatim>\<open>Lost Girl\<close> of \<^verbatim>\<open>CA\<close>: the second candidate wins, although the first
  equals the query.
\<close>

theorem FindShow_region_pass_first_witness:
  "fst (FindShow env0 (client0\<lparr>Region := ''CA''\<rparr>) world0 ''Lost Girl'')
     = Inr (show_of 3 ''Lost Girl'' ''CA'')
   \<and> fst (FindShow env0 (client0\<lparr>Region := ''CA''\<rparr>) world0 ''Lost'')
     = Inr (show_of 3 ''Lost Girl'' ''CA'')"
proof -
  let ?c = "client0\<lparr>Region := ''CA''\<rparr>"
  obtain c1 w1 where
    g1: "GetShow env0 ?c world0 ''Lost Girl'' = (Inr lost_girl_candidates, c1, w1)"
    using GetShow_lost_girl by (cases "GetShow env0 ?c world0 ''Lost Girl''") simp
  obtain c2 w2 where g2: "GetShow env0 ?c world0 ''Lost'' = (Inr lost_candidates, c2, w2)"
    using GetShow_lost by (cases "GetShow env0 ?c world0 ''Lost''") simp
  have r: "Region ?c \<noteq> ''''" by simp
  have p1: "find (pass1_accepts (Region ?c) ''Lost Girl'')
              (map Candidate_Show lost_girl_candidates) = Some (show_of 3 ''Lost Girl'' ''CA'')"
    by (simp add: data_defs match_defs)
  have p2: "find (pass1_accepts (Region ?c) ''Lost'') (map Candidate_Show lost_candidates)
              = Some (show_of 3 ''Lost Girl'' ''CA'')"
    by (simp add: data_defs match_defs)
  from FindShow_region_pass_first [OF g1 r p1] FindShow_region_pass_first [OF g2 r p2]
  show ?thesis by simp
qed

text \<open>
  Claim C5. For the candidates that \<open>GetShow\<close> returned, \<open>FindShow\<close> fails with the
  not-found error if and only if no candidate is accepted by either pass; a show it
  returns is one of the candidates and is accepted by one of the two passes; and it does
  one or the other.
\<close>

theorem FindShow_not_found_iff:
  assumes "GetShow env c w name = (Inr cs, c', w')"
  shows "(fst (FindShow env c w name) = Inl not_found \<longleftrightarrow>
            \<not> (\<exists>shw \<in> set (map Candidate_Show cs). accepted env (Region c) name shw))
       \<and> (\<forall>shw. fst (FindShow env c w name) = Inr shw \<longrightarrow>
            shw \<in> set (map Candidate_Show cs) \<and> accepted env (Region c) name shw)
       \<and> (fst (FindShow env c w name) = Inl not_found
          \<or> (\<exists>shw. fst (FindShow env c w name) = Inr shw))"
proof -
  have f: "fst (FindShow env c w name) = retry_loop env (Region c) name cs 0"
    using assms by (simp add: FindShow_candidates)
  show ?thesis
    unfolding f
    using retry_loop_not_found_iff [of env "Region c" name cs]
      retry_loop_found_accepted [of env "Region c" name cs]
      retry_loop_total [of env "Region c" name cs]
    by blast
qed

text \<open>The example of the claim: the only candidate is Fringe, the query \<^verbatim>\<open>NoSuchShow\<close>.\<close>

theorem FindShow_not_found_iff_witness:
  "fst (FindShow env0 client0 world0 ''NoSuchShow'') = Inl not_found
   \<and> \<not> accepted env0 '''' ''NoSuchShow'' (show_of 5 ''Fringe'' ''US'')"
proof -
  obtain c1 w1 where
    g: "GetShow env0 client0 world0 ''NoSuchShow'' = (Inr fringe_candidates, c1, w1)"
    using GetShow_nosuch by (cases "GetShow env0 client0 world0 ''NoSuchShow''") simp
  have n: "\<not> accepted env0 '''' ''NoSuchShow'' (show_of 5 ''Fringe'' ''US'')"
    by (simp add: accepted_def env0_def data_defs match_defs)
  then have "\<not> (\<exists>shw \<in> set (map Candidate_Show fringe_candidates).
                accepted env0 (Region client0) ''NoSuchShow'' shw)"
    by (simp add: fringe_candidates_def candidate_of_def client0_def)
  with FindShow_not_found_iff [OF g] n show ?thesis by blast
qed

section \<open>The claims about the fetch\<close>

text \<open>
  Claim C3. For every request URI: if the use-cache flag is true and the cache holds a
  live entry for the URI, \<open>Go\<close> hands no request to the transport, leaves the client as
  it was and returns the cached value, the cached bytes when the entry holds a byte slice.
  If the flag is false, \<open>Go\<close> hands exactly one request to the transport whatever the
  cache holds (for a URI from which \<^verbatim>\<open>http.NewRequest\<close> builds a request), and when it
  succeeds its result is the body of the response just received and the entry of the URI
  is that body, live at the time of return.
\<close>

theorem Go_cache_policy:
  assumes "Go env c w uri = (r, c', w')"
  shows "(\<forall>v. UseCache c \<and> cache_Get (Cache c) (clock w) (URL_String env uri) = (v, True) \<longrightarrow>
            r = assert_bytes v \<and> (\<forall>b. v = ByteSlice b \<longrightarrow> r = Inr b)
            \<and> sent w' = sent w \<and> c' = c)
       \<and> (\<forall>req. \<not> UseCache c
              \<and> http_NewRequest env ''GET'' (URL_String env uri) = Inr req \<longrightarrow>
            sent w' = sent w @ [req]
            \<and> (\<forall>body. r = Inr body \<longrightarrow>
                 (\<exists>el resp. RoundTrip env (clock w) req = (el, Inr resp)
                    \<and> Body resp = Inr body)
                 \<and> cache_Get (Cache c') (clock w') (URL_String env uri)
                     = (ByteSlice body, True)))"
proof (intro conjI allI impI)
  fix v
  assume h: "UseCache c \<and> cache_Get (Cache c) (clock w) (URL_String env uri) = (v, True)"
  with assms Go_hit [of c w env uri v r c' w']
  show "r = assert_bytes v" and "sent w' = sent w" and "c' = c" by simp_all
  then show "\<And>b. v = ByteSlice b \<Longrightarrow> r = Inr b" by (simp add: assert_bytes_def)
next
  fix req
  assume h: "\<not> UseCache c \<and> http_NewRequest env ''GET'' (URL_String env uri) = Inr req"
  with assms Go_bypass [of c env uri req w r c' w']
  show "sent w' = sent w @ [req]" by simp
  fix body
  assume "r = Inr body"
  with h assms Go_bypass [of c env uri req w r c' w']
  show "\<exists>el resp. RoundTrip env (clock w) req = (el, Inr resp) \<and> Body resp = Inr body"
    and "cache_Get (Cache c') (clock w') (URL_String env uri) = (ByteSlice body, True)"
    by auto
qed

text \<open>
  A client whose cache holds a live entry for the episodes of show 1. With the flag set
  the cached bytes come back and nothing is sent; with the flag unset, and the entry still
  live, one request is sent, the fresh body comes back and replaces the entry.
\<close>

theorem Go_cache_policy_witness:
  "fst (Go env0 ((cached_client ''http://api.tvmaze.com/shows/1/episodes'')\<lparr>UseCache := True\<rparr>)
          world0 (episodes_uri ''1'')) = Inr ''<json: cached>''
   \<and> sent (snd (snd (Go env0
          ((cached_client ''http://api.tvmaze.com/shows/1/episodes'')\<lparr>UseCache := True\<rparr>)
          world0 (episodes_uri ''1'')))) = []
   \<and> cache_Get (Cache (cached_client ''http://api.tvmaze.com/shows/1/episodes'')) 0
        ''http://api.tvmaze.com/shows/1/episodes'' = (ByteSlice ''<json: cached>'', True)
   \<and> fst (Go env0 (cached_client ''http://api.tvmaze.com/shows/1/episodes'') world0
          (episodes_uri ''1'')) = Inr ''<json: episodes>''
   \<and> sent (snd (snd (Go env0 (cached_client ''http://api.tvmaze.com/shows/1/episodes'') world0
          (episodes_uri ''1'')))) = [get_request (episodes_uri ''1'')]
   \<and> cache_Get (Cache (fst (snd (Go env0
          (cached_client ''http://api.tvmaze.com/shows/1/episodes'') world0
          (episodes_uri ''1'')))))
        Second ''http://api.tvmaze.com/shows/1/episodes''
      = (ByteSlice ''<json: episodes>'', True)"
proof -
  let ?key = "''http://api.tvmaze.com/shows/1/episodes''"
  let ?on = "(cached_client ?key)\<lparr>UseCache := True\<rparr>"
  let ?off = "cached_client ?key"
  obtain r1 c1 w1 where g1: "Go env0 ?on world0 (episodes_uri ''1'') = (r1, c1, w1)"
    by (cases "Go env0 ?on world0 (episodes_uri ''1'')") auto
  obtain r2 c2 w2 where g2: "Go env0 ?off world0 (episodes_uri ''1'') = (r2, c2, w2)"
    by (cases "Go env0 ?off world0 (episodes_uri ''1'')") auto
  have k: "URL_String env0 (episodes_uri ''1'') = ?key"
    by (simp add: harness_defs)
  have h1: "UseCache ?on
            \<and> cache_Get (Cache ?on) (clock world0) (URL_String env0 (episodes_uri ''1''))
                = (ByteSlice ''<json: cached>'', True)"
    by (simp add: harness_defs code_defs)
  have h2: "\<not> UseCache ?off
            \<and> http_NewRequest env0 ''GET'' (URL_String env0 (episodes_uri ''1''))
                = Inr (get_request (episodes_uri ''1''))"
    by (simp add: harness_defs code_defs)
  have live: "cache_Get (Cache ?off) 0 ?key = (ByteSlice ''<json: cached>'', True)"
    by (simp add: harness_defs code_defs)
  have "fst (Go env0 ?off world0 (episodes_uri ''1'')) = Inr ''<json: episodes>''"
    and "clock (snd (snd (Go env0 ?off world0 (episodes_uri ''1'')))) = Second"
    by (simp_all add: harness_defs code_defs)
  then have r2: "r2 = Inr ''<json: episodes>''" and t2: "clock w2 = Second"
    unfolding g2 by simp_all
  from Go_cache_policy [OF g1] h1
  have a: "r1 = Inr ''<json: cached>'' \<and> sent w1 = sent world0" by blast
  from Go_cache_policy [OF g2] h2 r2
  have b: "sent w2 = sent world0 @ [get_request (episodes_uri ''1'')]
           \<and> cache_Get (Cache c2) (clock w2) (URL_String env0 (episodes_uri ''1''))
               = (ByteSlice ''<json: episodes>'', True)" by blast
  from a b r2 t2 k live show ?thesis unfolding g1 g2 by (simp add: world0_def)
qed

text \<open>
  Claim C4. Whenever \<open>Go\<close> takes the network path and the transport returns a response
  whose status code is not 200, \<open>Go\<close> returns no bytes but the error built by
  \<^verbatim>\<open>errors.New\<close> from \<^verbatim>\<open>Request failed: \<close> followed by the status text of that code, and
  leaves the client as it was.
\<close>

theorem Go_status_error:
  assumes "\<not> snd (cache_Get (Cache c) (clock w) (URL_String env uri)) \<or> \<not> UseCache c"
    and "http_NewRequest env ''GET'' (URL_String env uri) = Inr req"
    and "RoundTrip env (clock w) req = (el, Inr resp)"
    and "StatusCode resp \<noteq> 200"
  shows "fst (Go env c w uri)
           = Inl (errors_New (''Request failed: '' @ StatusText env (StatusCode resp)))
         \<and> fst (snd (Go env c w uri)) = c"
  using assms by (auto simp: Go_def Let_def split: prod.splits sum.splits if_splits)

text \<open>The service answers 404 for the episodes of show 4.\<close>

theorem Go_status_error_witness:
  "fst (Go env0 client0 world0 (episodes_uri ''4''))
     = Inl (errors_New ''Request failed: Not Found'')
   \<and> fst (snd (Go env0 client0 world0 (episodes_uri ''4''))) = client0"
proof -
  have a: "\<not> snd (cache_Get (Cache client0) (clock world0)
                   (URL_String env0 (episodes_uri ''4'')))
           \<or> \<not> UseCache client0"
    by (simp add: harness_defs code_defs)
  have b: "http_NewRequest env0 ''GET'' (URL_String env0 (episodes_uri ''4''))
             = Inr (get_request (episodes_uri ''4''))"
    by (simp add: harness_defs code_defs)
  have c: "RoundTrip env0 (clock world0) (get_request (episodes_uri ''4''))
             = (Second, Inr \<lparr>StatusCode = 404, Body = Inr ''''\<rparr>)"
    by (simp add: harness_defs code_defs)
  have d: "StatusCode \<lparr>StatusCode = 404, Body = Inr ''''\<rparr> \<noteq> 200" by simp
  from Go_status_error [OF a b c d] show ?thesis by (simp add: env0_def)
qed

text \<open>
  Claim C9. Whenever \<open>Go\<close> does not return bytes (the request cannot be built, the
  transport fails, the status is not 200, or the body cannot be read), the client and
  with it the cache entry of the URI are exactly as before the call; the cache differs
  after a call only when the call returned bytes.
\<close>

theorem Go_error_keeps_cache:
  assumes "Go env c w uri = (r, c', w')"
  shows "(\<forall>e. r = Inl e \<longrightarrow>
            c' = c
            \<and> items (Cache c') (URL_String env uri) = items (Cache c) (URL_String env uri))
       \<and> (Cache c' \<noteq> Cache c \<longrightarrow> (\<exists>body. r = Inr body))"
  using assms Go_error_unchanged [of env c w uri _ c' w']
    Go_written_success [of env c w uri r c' w']
  by auto

text \<open>
  The four failures, each on a client that holds an entry for the URI: a URI that does
  not parse, a host that cannot be reached, a 404, and a body that cannot be read.
\<close>

theorem Go_error_keeps_cache_witness:
  "Cache (fst (snd (Go env0 (cached_client ''http://a b'') world0 bad_uri)))
     = Cache (cached_client ''http://a b'')
   \<and> Cache (fst (snd (Go env0 (cached_client ''http://localhost/'') world0 offline_uri)))
     = Cache (cached_client ''http://localhost/'')
   \<and> Cache (fst (snd (Go env0 (cached_client ''http://api.tvmaze.com/shows/4/episodes'') world0
        (episodes_uri ''4'')))) = Cache (cached_client ''http://api.tvmaze.com/shows/4/episodes'')
   \<and> Cache (fst (snd (Go env0 (cached_client ''http://api.tvmaze.com/shows/3/episodes'') world0
        (episodes_uri ''3'')))) = Cache (cached_client ''http://api.tvmaze.com/shows/3/episodes'')"
proof -
  have keep: "Cache (fst (snd (Go env0 c world0 u))) = Cache c"
    if "fst (Go env0 c world0 u) = Inl e" for c u e
  proof -
    obtain r c' w' where g: "Go env0 c world0 u = (r, c', w')"
      by (cases "Go env0 c world0 u") auto
    with that have "r = Inl e" by simp
    with Go_error_keeps_cache [OF g] have "c' = c" by blast
    with g show ?thesis by simp
  qed
  from keep [OF Go_failures_eval(1)] keep [OF Go_failures_eval(2)]
    keep [OF Go_failures_eval(3)] keep [OF Go_failures_eval(4)]
  show ?thesis by simp
qed

text \<open>
  Claim C10. In an execution in which only \<open>Go\<close> writes the cache, every entry holds a
  byte slice, no call of \<open>Go\<close> ends in the panic of the type assertion, and a call leaves
  the cache as it was or stores a byte slice under the URI.
\<close>

theorem Go_never_panics:
  assumes "written_by_fetch env c"
  shows "bytes_only (Cache c)
       \<and> (\<forall>w uri msg. fst (Go env c w uri) \<noteq> Inl (Panic msg))
       \<and> (\<forall>w uri r c' w'. Go env c w uri = (r, c', w') \<longrightarrow>
            bytes_only (Cache c')
            \<and> (Cache c' = Cache c
               \<or> (\<exists>body. Cache c' = cache_Set (Cache c) (clock w') (URL_String env uri)
                                      (ByteSlice body) 0)))"
proof -
  from assms have b: "bytes_only (Cache c)" by (rule written_bytes_only)
  moreover from b have "\<forall>w uri msg. fst (Go env c w uri) \<noteq> Inl (Panic msg)"
    by (simp add: Go_no_panic)
  moreover have "\<forall>w uri r c' w'. Go env c w uri = (r, c', w') \<longrightarrow>
            bytes_only (Cache c')
            \<and> (Cache c' = Cache c
               \<or> (\<exists>body. Cache c' = cache_Set (Cache c) (clock w') (URL_String env uri)
                                      (ByteSlice body) 0))"
    using b Go_bytes_only Go_cache_cases by blast
  ultimately show ?thesis by blast
qed

text \<open>
  A fresh client with the flag set fetches the episodes of show 1 and then asks again:
  the second call is a cache hit, and its type assertion succeeds.
\<close>

theorem Go_never_panics_witness:
  "bytes_only (Cache (fst (snd (Go env0 (client0\<lparr>UseCache := True\<rparr>) world0
      (episodes_uri ''1'')))))
   \<and> (\<forall>msg. fst (Go env0
                (fst (snd (Go env0 (client0\<lparr>UseCache := True\<rparr>) world0 (episodes_uri ''1''))))
                (snd (snd (Go env0 (client0\<lparr>UseCache := True\<rparr>) world0 (episodes_uri ''1''))))
                (episodes_uri ''1'')) \<noteq> Inl (Panic msg))
   \<and> fst (Go env0
            (fst (snd (Go env0 (client0\<lparr>UseCache := True\<rparr>) world0 (episodes_uri ''1''))))
            (snd (snd (Go env0 (client0\<lparr>UseCache := True\<rparr>) world0 (episodes_uri ''1''))))
            (episodes_uri ''1'')) = Inr ''<json: episodes>''
   \<and> sent (snd (snd (Go env0
            (fst (snd (Go env0 (client0\<lparr>UseCache := True\<rparr>) world0 (episodes_uri ''1''))))
            (snd (snd (Go env0 (client0\<lparr>UseCache := True\<rparr>) world0 (episodes_uri ''1''))))
            (episodes_uri ''1'')))) = [get_request (episodes_uri ''1'')]"
proof -
  let ?c = "client0\<lparr>UseCache := True\<rparr>"
  obtain r c' w' where g: "Go env0 ?c world0 (episodes_uri ''1'') = (r, c', w')"
    by (cases "Go env0 ?c world0 (episodes_uri ''1'')") auto
  have "written_by_fetch env0 ?c"
    by (rule written_by_fetch.fresh) (simp add: client0_def cache_New_def)
  then have wr: "written_by_fetch env0 c'"
    using g by (rule written_by_fetch.fetch)
  have hit: "fst (Go env0 (fst (snd (Go env0 ?c world0 (episodes_uri ''1''))))
                   (snd (snd (Go env0 ?c world0 (episodes_uri ''1''))))
                   (episodes_uri ''1'')) = Inr ''<json: episodes>''"
    and once: "sent (snd (snd (Go env0 (fst (snd (Go env0 ?c world0 (episodes_uri ''1''))))
                   (snd (snd (Go env0 ?c world0 (episodes_uri ''1''))))
                   (episodes_uri ''1'')))) = [get_request (episodes_uri ''1'')]"
    by (simp_all add: harness_defs code_defs)
  from Go_never_panics [OF wr]
  have "bytes_only (Cache c')"
    and "\<forall>msg. fst (Go env0 c' w' (episodes_uri ''1'')) \<noteq> Inl (Panic msg)"
    by blast+
  with hit once show ?thesis unfolding g by simp
qed

text \<open>
  Claim C8. The code has no optional identifying header: the client has no field for
  one, and every request that \<open>Go\<close> hands to the transport is the one that
  \<^verbatim>\<open>http.NewRequest\<close> built, a \<^verbatim>\<open>GET\<close> with an empty header set, whatever the fields of the
  client hold.
\<close>

theorem Go_requests_carry_no_header:
  assumes "Go env c w uri = (r, c', w')"
  shows "sent w' = sent w
         \<or> (\<exists>u. sent w' = sent w @ [\<lparr>Method = ''GET'', Request_URL = u, Header = []\<rparr>])"
  using assms
  by (auto simp: Go_def Let_def http_NewRequest_def split: prod.splits sum.splits if_splits)

text \<open>The request for the episodes of show 1, sent by the client that \<open>NewClient\<close> builds.\<close>

theorem Go_requests_carry_no_header_witness:
  "sent (snd (snd (Go env0 client0 world0 (episodes_uri ''1''))))
     = [\<lparr>Method = ''GET'', Request_URL = episodes_uri ''1'', Header = []\<rparr>]"
proof -
  obtain r c' w' where g: "Go env0 client0 world0 (episodes_uri ''1'') = (r, c', w')"
    by (cases "Go env0 client0 world0 (episodes_uri ''1'')") auto
  have "sent (snd (snd (Go env0 client0 world0 (episodes_uri ''1''))))
          = [get_request (episodes_uri ''1'')]"
    by (simp add: harness_defs code_defs)
  then have s: "sent w' = [get_request (episodes_uri ''1'')]"
    unfolding g by simp
  from Go_requests_carry_no_header [OF g] s show ?thesis
    unfolding g by (simp add: get_request_def)
qed

section \<open>The claims about construction and the episode listing\<close>

text \<open>
  Claim C6. When no file exists at the cache-file path, \<open>NewClient\<close> succeeds with a
  client whose cache is empty and whose cache file is that path; when the file exists and
  its contents do not decode, \<open>NewClient\<close> returns the error of the load and no client.
\<close>

theorem NewClient_cache_file:
  "(files w cachefile = None \<longrightarrow>
      (\<exists>c. NewClient env w cachefile = Inr c \<and> items (Cache c) = Map.empty
            \<and> CacheFile c = cachefile))
   \<and> (\<forall>content err.
        files w cachefile = Some content \<and> gob_Decode env content = Inl err \<longrightarrow>
        NewClient env w cachefile = Inl (LoadError err))"
  by (auto simp: NewClient_def os_Stat_def cache_LoadFile_def cache_New_def)

text \<open>A world without the file, and one where the file holds bytes that do not decode.\<close>

theorem NewClient_cache_file_witness:
  "NewClient env0 world0 ''tvmaze.cache'' = Inr client0
   \<and> items (Cache client0) = Map.empty
   \<and> NewClient env0 world_malformed ''tvmaze.cache''
       = Inl (LoadError ''gob: encoded unsigned integer out of range'')"
proof -
  have a: "files world0 ''tvmaze.cache'' = None" by (simp add: world0_def)
  have b: "files world_malformed ''tvmaze.cache'' = Some ''garbage''
           \<and> gob_Decode env0 ''garbage'' = Inl ''gob: encoded unsigned integer out of range''"
    by (simp add: world_malformed_def world0_def env0_def)
  from NewClient_cache_file [of world0 "''tvmaze.cache''" env0] a
  obtain c where c: "NewClient env0 world0 ''tvmaze.cache'' = Inr c"
    and e: "items (Cache c) = Map.empty"
    by blast
  have "NewClient env0 world0 ''tvmaze.cache'' = Inr client0"
    by (simp add: harness_defs NewClient_def os_Stat_def)
  with c e have "NewClient env0 world0 ''tvmaze.cache'' = Inr client0
                 \<and> items (Cache client0) = Map.empty"
    by simp
  moreover from NewClient_cache_file [of world_malformed "''tvmaze.cache''" env0] b
  have "NewClient env0 world_malformed ''tvmaze.cache''
          = Inl (LoadError ''gob: encoded unsigned integer out of range'')" by blast
  ultimately show ?thesis by simp
qed

text \<open>
  Claim C7. For every show identifier (and a base URI for which the URI of the listing
  parses), \<open>GetEpisodes\<close> calls \<open>Go\<close> exactly once, with the URI parsed from the base
  followed by \<^verbatim>\<open>/shows/\<close>, the identifier in decimal and \<^verbatim>\<open>/episodes\<close>; an error of that call
  is returned as it is; the body it returns is decoded, the decoded sequence is returned
  as the decoder gave it, and a body that does not decode yields the error of the decoder
  and no episodes.
\<close>

theorem GetEpisodes_single_fetch:
  assumes "url_Parse env (BaseURI c @ ''/shows/'' @ format_int64 showID @ ''/episodes'')
             = Inr uri"
    and "GetEpisodes env c w showID = (r, c', w')"
  shows "Go_calls w' = Go_calls w @ [URL_String env uri]
       \<and> (\<exists>g. Go env c w uri = (g, c', w')
            \<and> (\<forall>err. g = Inl err \<longrightarrow> r = Inl err)
            \<and> (\<forall>body. g = Inr body \<longrightarrow>
                 (\<forall>episodes. Unmarshal_Episodes env body = Inr episodes \<longrightarrow>
                    r = Inr episodes)
                 \<and> (\<forall>err. Unmarshal_Episodes env body = Inl err \<longrightarrow>
                      r = Inl (UnmarshalError err))))"
  using assms
  by (auto simp: GetEpisodes_def Let_def split: prod.splits sum.splits dest: Go_calls_log)

text \<open>
  Show 1: one call for \<^verbatim>\<open>http://api.tvmaze.com/shows/1/episodes\<close>, and the two episodes
  come back in the order of the service, number 2 before number 1. Show 2: the body is
  not JSON, and the decoder's error comes back.
\<close>

theorem GetEpisodes_single_fetch_witness:
  "Go_calls (snd (snd (GetEpisodes env0 client0 world0 1)))
     = [''http://api.tvmaze.com/shows/1/episodes'']
   \<and> fst (GetEpisodes env0 client0 world0 1) = Inr episodes0
   \<and> map Episode_Number episodes0 = [2, 1]
   \<and> Go_calls (snd (snd (GetEpisodes env0 client0 world0 2)))
     = [''http://api.tvmaze.com/shows/2/episodes'']
   \<and> fst (GetEpisodes env0 client0 world0 2)
     = Inl (UnmarshalError ''invalid character looking for beginning of value'')"
proof -
  have p1: "url_Parse env0 (BaseURI client0 @ ''/shows/'' @ format_int64 1 @ ''/episodes'')
              = Inr (episodes_uri ''1'')"
    by (simp add: harness_defs format_int64_def decimal.simps)
  have p2: "url_Parse env0 (BaseURI client0 @ ''/shows/'' @ format_int64 2 @ ''/episodes'')
              = Inr (episodes_uri ''2'')"
    by (simp add: harness_defs format_int64_def decimal.simps)
  obtain r1 c1 w1 where g1: "GetEpisodes env0 client0 world0 1 = (r1, c1, w1)"
    by (cases "GetEpisodes env0 client0 world0 1") auto
  obtain r2 c2 w2 where g2: "GetEpisodes env0 client0 world0 2 = (r2, c2, w2)"
    by (cases "GetEpisodes env0 client0 world0 2") auto
  have k: "URL_String env0 (episodes_uri ''1'') = ''http://api.tvmaze.com/shows/1/episodes''"
    "URL_String env0 (episodes_uri ''2'') = ''http://api.tvmaze.com/shows/2/episodes''"
    by (simp_all add: harness_defs)
  have b1: "fst (Go env0 client0 world0 (episodes_uri ''1'')) = Inr ''<json: episodes>''"
    and b2: "fst (Go env0 client0 world0 (episodes_uri ''2'')) = Inr ''<html>''"
    by (simp_all add: harness_defs code_defs)
  have d1: "Unmarshal_Episodes env0 ''<json: episodes>'' = Inr episodes0"
    and d2: "Unmarshal_Episodes env0 ''<html>''
               = Inl ''invalid character looking for beginning of value''"
    by (simp_all add: env0_def)
  from GetEpisodes_single_fetch [OF p1 g1] obtain ga where
    l1: "Go_calls w1 = Go_calls world0 @ [URL_String env0 (episodes_uri ''1'')]"
    and ga: "Go env0 client0 world0 (episodes_uri ''1'') = (ga, c1, w1)"
    and da: "\<forall>body. ga = Inr body \<longrightarrow>
               (\<forall>episodes. Unmarshal_Episodes env0 body = Inr episodes \<longrightarrow> r1 = Inr episodes)"
    by blast
  from ga b1 have "ga = Inr ''<json: episodes>''" by simp
  with da d1 have e1: "r1 = Inr episodes0" by blast
  from GetEpisodes_single_fetch [OF p2 g2] obtain gb where
    l2: "Go_calls w2 = Go_calls world0 @ [URL_String env0 (episodes_uri ''2'')]"
    and gb: "Go env0 client0 world0 (episodes_uri ''2'') = (gb, c2, w2)"
    and db: "\<forall>body. gb = Inr body \<longrightarrow>
               (\<forall>err. Unmarshal_Episodes env0 body = Inl err \<longrightarrow> r2 = Inl (UnmarshalError err))"
    by blast
  from gb b2 have "gb = Inr ''<html>''" by simp
  with db d2 have e2: "r2 = Inl (UnmarshalError ''invalid character looking for beginning of value'')"
    by blast
  from l1 l2 e1 e2 k show ?thesis
    unfolding g1 g2 by (simp add: world0_def episodes0_def zero_Episode_def)
qed

end
